theory Spec2Isabelle
  imports Main "HOL-Library.Word"
begin

unbundle bit_operations_syntax

section \<open>STUN message decoding (message.py)\<close>

text \<open>
  The module is Python 2: a message buffer is a \<open>str\<close>, that is a sequence of bytes.
  Offsets and lengths are natural numbers (the negative offsets that Python would count
  from the end of the buffer are outside this model); the integers that
  \<open>struct.unpack_from\<close> returns are unsigned, so they are natural numbers too.
  Every exception the code can raise is a value of \<open>error\<close>, and a function that can
  raise returns \<open>error + 'a\<close> with \<open>Inl\<close> for the exception.
\<close>

type_synonym bytes = "8 word list"

datatype error =
    AssertionError
  | IndexError
  | StructError
  | ValueError
  | UnboundLocalError
  | UnicodeDecodeError

subsection \<open>Constants of the module\<close>

definition ATTRIBUTE_MAPPED_ADDRESS :: nat where "ATTRIBUTE_MAPPED_ADDRESS = 0x0001"
definition ATTRIBUTE_USERNAME :: nat where "ATTRIBUTE_USERNAME = 0x0006"
definition ATTRIBUTE_MESSAGE_INTEGRITY :: nat where "ATTRIBUTE_MESSAGE_INTEGRITY = 0x0008"
definition ATTRIBUTE_ERROR_CODE :: nat where "ATTRIBUTE_ERROR_CODE = 0x0009"
definition ATTRIBUTE_UNKNOWN_ATTRIBUTES :: nat where "ATTRIBUTE_UNKNOWN_ATTRIBUTES = 0x000A"
definition ATTRIBUTE_REALM :: nat where "ATTRIBUTE_REALM = 0x0014"
definition ATTRIBUTE_NONCE :: nat where "ATTRIBUTE_NONCE = 0x0015"
definition ATTRIBUTE_XOR_MAPPED_ADDRESS :: nat where "ATTRIBUTE_XOR_MAPPED_ADDRESS = 0x0020"
definition ATTRIBUTE_SOFTWARE :: nat where "ATTRIBUTE_SOFTWARE = 0x8022"
definition ATTRIBUTE_ALTERNATE_SERVER :: nat where "ATTRIBUTE_ALTERNATE_SERVER = 0x8023"
definition ATTRIBUTE_FINGERPRINT :: nat where "ATTRIBUTE_FINGERPRINT = 0x8028"

definition ATTRIBUTE_CHANNEL_NUMBER :: nat where "ATTRIBUTE_CHANNEL_NUMBER = 0x000C"
definition ATTRIBUTE_LIFETIME :: nat where "ATTRIBUTE_LIFETIME = 0x000D"
definition ATTRIBUTE_XOR_PEER_ADDRESS :: nat where "ATTRIBUTE_XOR_PEER_ADDRESS = 0x0012"
definition ATTRIBUTE_DATA :: nat where "ATTRIBUTE_DATA = 0x0013"
definition ATTRIBUTE_XOR_RELAYED_ADDRESS :: nat where "ATTRIBUTE_XOR_RELAYED_ADDRESS = 0x0016"
definition ATTRIBUTE_EVEN_PORT :: nat where "ATTRIBUTE_EVEN_PORT = 0x0018"
definition ATTRIBUTE_REQUESTED_TRANSPORT :: nat where "ATTRIBUTE_REQUESTED_TRANSPORT = 0x0019"

definition ATTRIBUTE_CHANGE_REQUEST :: nat where "ATTRIBUTE_CHANGE_REQUEST = 0x0003"
definition ATTRIBUTE_PADDING :: nat where "ATTRIBUTE_PADDING = 0x0026"
definition ATTRIBUTE_RESPONSE_PORT :: nat where "ATTRIBUTE_RESPONSE_PORT = 0x0027"
definition ATTRIBUTE_RESPONSE_ORIGIN :: nat where "ATTRIBUTE_RESPONSE_ORIGIN = 0x802b"
definition ATTRIBUTE_OTHER_ADDRESS :: nat where "ATTRIBUTE_OTHER_ADDRESS = 0x802c"

definition FORMAT_STUN :: nat where "FORMAT_STUN = 0"
definition MAGIC_COOKIE :: nat where "MAGIC_COOKIE = 0x2112A442"
definition METHOD_BINDING :: nat where "METHOD_BINDING = 0x001"
definition CLASS_REQUEST :: nat where "CLASS_REQUEST = 0x00"
definition CLASS_INDICATION :: nat where "CLASS_INDICATION = 0x01"
definition CLASS_RESPONSE_SUCCESS :: nat where "CLASS_RESPONSE_SUCCESS = 0x10"
definition CLASS_RESPONSE_ERROR :: nat where "CLASS_RESPONSE_ERROR = 0x11"

definition FAMILY_IPv4 :: nat where "FAMILY_IPv4 = 0x01"
definition FAMILY_IPv6 :: nat where "FAMILY_IPv6 = 0x02"

text \<open>\<open>struct.calcsize\<close> of the three formats that the classes name.\<close>

definition HEADER_SIZE_msg :: nat where "HEADER_SIZE_msg = 20"      \<comment> \<open>\<open>'>2HL12s'\<close>\<close>
definition HEADER_SIZE :: nat where "HEADER_SIZE = 4"                \<comment> \<open>\<open>'>2H'\<close>\<close>
definition VALUE_HEADER_SIZE :: nat where "VALUE_HEADER_SIZE = 4"    \<comment> \<open>\<open>'>xBH'\<close> and \<open>'>2x2B'\<close>\<close>

subsection \<open>The library functions the module calls\<close>

text \<open>Big-endian unsigned reads; the callers below check the bounds first.\<close>

definition u8_at :: "bytes \<Rightarrow> nat \<Rightarrow> nat" where
  "u8_at data i = unat (data ! i)"

definition u16_at :: "bytes \<Rightarrow> nat \<Rightarrow> nat" where
  "u16_at data i = u8_at data i * 256 + u8_at data (i + 1)"

definition u32_at :: "bytes \<Rightarrow> nat \<Rightarrow> nat" where
  "u32_at data i = u16_at data i * 65536 + u16_at data (i + 2)"

text \<open>
  \<open>struct.unpack_from(fmt, data, offset)\<close> raises \<open>struct.error\<close> when fewer than
  \<open>calcsize(fmt)\<close> bytes follow \<open>offset\<close>; otherwise it reads the fields, here the
  function \<open>rd\<close>.
\<close>

definition unpack_from :: "nat \<Rightarrow> (bytes \<Rightarrow> nat \<Rightarrow> 'a) \<Rightarrow> bytes \<Rightarrow> nat \<Rightarrow> error + 'a" where
  "unpack_from sz rd data offset =
     (if length data < offset + sz then Inl StructError else Inr (rd data offset))"

text \<open>
  Python 2's \<open>buffer(data, offset, size)\<close>: a view that is clamped to the object it
  views, so it never reads out of range; the size \<open>-1\<close> means "to the end", any other
  negative size raises \<open>ValueError\<close>.
\<close>

definition buffer :: "bytes \<Rightarrow> nat \<Rightarrow> int \<Rightarrow> error + bytes" where
  "buffer data offset sz =
     (if sz = - 1 then Inr (drop offset data)
      else if sz < 0 then Inl ValueError
      else Inr (take (nat sz) (drop offset data)))"

text \<open>
  \<open>str.decode('UTF-8')\<close> of Python 2.7, strict: the result is the list of code points.
  A lead byte fixes the length of its sequence (\<open>0\<close>: not a lead byte); overlong forms
  and code points above \<open>0x10FFFF\<close> are rejected, surrogates are accepted.
\<close>

definition utf8_code_length :: "nat \<Rightarrow> nat" where
  "utf8_code_length ch =
     (if ch < 0x80 then 1
      else if ch < 0xC2 then 0
      else if ch < 0xE0 then 2
      else if ch < 0xF0 then 3
      else if ch < 0xF5 then 4
      else 0)"

definition utf8_cont :: "bytes \<Rightarrow> nat \<Rightarrow> bool" where
  "utf8_cont bs i = (u8_at bs i AND 0xC0 = 0x80)"

definition utf8_char :: "nat \<Rightarrow> nat \<Rightarrow> bytes \<Rightarrow> error + nat" where
  "utf8_char n ch bs =
     (if n = 1 then Inr ch
      else if n = 2 then
        (if utf8_cont bs 0
         then Inr (push_bit 6 (ch AND 0x1f) + (u8_at bs 0 AND 0x3f))
         else Inl UnicodeDecodeError)
      else if n = 3 then
        (if utf8_cont bs 0 \<and> utf8_cont bs 1 \<and> \<not> (ch = 0xE0 \<and> u8_at bs 0 < 0xA0)
         then Inr (push_bit 12 (ch AND 0x0f) + push_bit 6 (u8_at bs 0 AND 0x3f)
                   + (u8_at bs 1 AND 0x3f))
         else Inl UnicodeDecodeError)
      else
        (if utf8_cont bs 0 \<and> utf8_cont bs 1 \<and> utf8_cont bs 2
            \<and> \<not> (ch = 0xF0 \<and> u8_at bs 0 < 0x90) \<and> \<not> (ch = 0xF4 \<and> u8_at bs 0 > 0x8F)
         then Inr (push_bit 18 (ch AND 0x07) + push_bit 12 (u8_at bs 0 AND 0x3f)
                   + push_bit 6 (u8_at bs 1 AND 0x3f) + (u8_at bs 2 AND 0x3f))
         else Inl UnicodeDecodeError))"

fun utf8_decode :: "bytes \<Rightarrow> error + nat list" where
  "utf8_decode [] = Inr []"
| "utf8_decode (b # bs) =
     (if length (b # bs) < utf8_code_length (unat b) then Inl UnicodeDecodeError
      else if utf8_code_length (unat b) = 0 then Inl UnicodeDecodeError
      else case utf8_char (utf8_code_length (unat b)) (unat b) bs of
             Inl e \<Rightarrow> Inl e
           | Inr c \<Rightarrow>
               (case utf8_decode (drop (utf8_code_length (unat b) - 1) bs) of
                  Inl e \<Rightarrow> Inl e
                | Inr cs \<Rightarrow> Inr (c # cs)))"

subsection \<open>Attributes and their classes\<close>

text \<open>
  The attribute classes. Each one is its own factory: \<open>factory.decode\<close> decodes the
  value and \<open>factory(type, length, value)\<close> builds the attribute, a 3-tuple that is an
  instance of the class.
\<close>

datatype factory =
    UnknownAttribute
  | MappedAddress
  | XorMappedAddress
  | Username
  | MessageIntegrity
  | Fingerprint
  | ErrorCode
  | Realm
  | Nonce
  | UnknownAttributes
  | Software
  | AlternateServer
  | ChannelNumber
  | Lifetime
  | XorPeerAddress
  | Data
  | XorRelayedAddress
  | EvenPort
  | RequestedTransport
  | ChangeRequest
  | ResponseOrigin
  | OtherAddress
  | ResponsePort
  | Padding

text \<open>The values the \<open>decode\<close> methods return.\<close>

datatype attr_value =
    VBuffer bytes                      \<comment> \<open>a \<open>buffer\<close> over the message\<close>
  | VAddress nat nat bytes             \<comment> \<open>\<open>(family, port, address)\<close>\<close>
  | VUnicode "nat list"                \<comment> \<open>a \<open>unicode\<close> string, as code points\<close>
  | VErrorCode nat nat "nat list"      \<comment> \<open>\<open>(err_class, err_number, err_reason)\<close>\<close>
  | VTuple "nat list"                  \<comment> \<open>a tuple of integers\<close>
  | VInt nat                           \<comment> \<open>an integer\<close>

record StunMessageAttribute =
  attr_class :: factory
  attr_type :: nat
  attr_length :: nat
  attr_value :: attr_value

record StunMessage =
  msg_method :: nat
  msg_class :: nat
  msg_length :: nat
  magic_cookie :: nat
  transaction_id :: bytes
  attributes :: "StunMessageAttribute list"

subsection \<open>The decode methods\<close>

text \<open>\<open>StunMessageAttribute.decode\<close>, inherited by every class that defines none.\<close>

definition StunMessageAttribute_decode :: "bytes \<Rightarrow> nat \<Rightarrow> nat \<Rightarrow> error + attr_value" where
  "StunMessageAttribute_decode data offset len =
     (case buffer data offset (int len) of Inl e \<Rightarrow> Inl e | Inr b \<Rightarrow> Inr (VBuffer b))"

definition MappedAddress_decode :: "bytes \<Rightarrow> nat \<Rightarrow> nat \<Rightarrow> error + attr_value" where
  "MappedAddress_decode data offset len =
     (case unpack_from 4 (\<lambda>d i. (u8_at d (i + 1), u16_at d (i + 2))) data offset of
        Inl e \<Rightarrow> Inl e
      | Inr (family, port) \<Rightarrow>
          (case buffer data (offset + VALUE_HEADER_SIZE) (int len - int VALUE_HEADER_SIZE) of
             Inl e \<Rightarrow> Inl e
           | Inr address \<Rightarrow> Inr (VAddress family port address)))"

text \<open>
  In \<open>XorMappedAddress.decode\<close> the local \<open>xaddress\<close> is bound in the two branches of
  an \<open>if\<close>/\<open>elif\<close> without \<open>else\<close>: it is \<open>None\<close> here when neither branch ran, and its
  first use then raises \<open>UnboundLocalError\<close>. The first use comes after \<open>magic\<close> is
  unpacked.
\<close>

definition XorMappedAddress_decode :: "bytes \<Rightarrow> nat \<Rightarrow> nat \<Rightarrow> error + attr_value" where
  "XorMappedAddress_decode data offset len =
     (case unpack_from 4 (\<lambda>d i. (u8_at d (i + 1), u16_at d (i + 2))) data offset of
        Inl e \<Rightarrow> Inl e
      | Inr (family, xport) \<Rightarrow>
          (let offset = offset + VALUE_HEADER_SIZE;
               xaddress =
                 (if family = FAMILY_IPv4 then Some (take 4 (drop offset data))
                  else if family = FAMILY_IPv6 then Some (take 16 (drop offset data))
                  else None)
           in case unpack_from 16 (\<lambda>d i. take 16 (drop i d)) data 4 of
                Inl e \<Rightarrow> Inl e
              | Inr magic \<Rightarrow>
                  (let port = xport XOR push_bit 8 (unat (magic ! 0)) XOR unat (magic ! 1)
                   in case xaddress of
                        None \<Rightarrow> Inl UnboundLocalError
                      | Some xa \<Rightarrow>
                          Inr (VAddress family port (map (\<lambda>(a, b). a XOR b) (zip xa magic))))))"

definition Username_decode :: "bytes \<Rightarrow> nat \<Rightarrow> nat \<Rightarrow> error + attr_value" where
  "Username_decode data offset len =
     (case buffer data offset (int len) of
        Inl e \<Rightarrow> Inl e
      | Inr b \<Rightarrow> (case utf8_decode b of Inl e \<Rightarrow> Inl e | Inr s \<Rightarrow> Inr (VUnicode s)))"

definition ErrorCode_decode :: "bytes \<Rightarrow> nat \<Rightarrow> nat \<Rightarrow> error + attr_value" where
  "ErrorCode_decode data offset len =
     (case unpack_from 4 (\<lambda>d i. (u8_at d (i + 2), u8_at d (i + 3))) data offset of
        Inl e \<Rightarrow> Inl e
      | Inr (err_class, err_number) \<Rightarrow>
          (let err_class = err_class AND 7
           in case buffer data offset (int len) of
                Inl e \<Rightarrow> Inl e
              | Inr b \<Rightarrow>
                  (case utf8_decode b of
                     Inl e \<Rightarrow> Inl e
                   | Inr err_reason \<Rightarrow> Inr (VErrorCode err_class err_number err_reason))))"

definition Realm_decode :: "bytes \<Rightarrow> nat \<Rightarrow> nat \<Rightarrow> error + attr_value" where
  "Realm_decode data offset len =
     (case buffer data offset (int len) of
        Inl e \<Rightarrow> Inl e
      | Inr b \<Rightarrow> (case utf8_decode b of Inl e \<Rightarrow> Inl e | Inr s \<Rightarrow> Inr (VUnicode s)))"

definition UnknownAttributes_decode :: "bytes \<Rightarrow> nat \<Rightarrow> nat \<Rightarrow> error + attr_value" where
  "UnknownAttributes_decode data offset len =
     (case unpack_from (2 * (len div 2))
             (\<lambda>d i. map (\<lambda>k. u16_at d (i + 2 * k)) [0..<len div 2]) data offset of
        Inl e \<Rightarrow> Inl e
      | Inr ts \<Rightarrow> Inr (VTuple ts))"

definition Software_decode :: "bytes \<Rightarrow> nat \<Rightarrow> nat \<Rightarrow> error + attr_value" where
  "Software_decode data offset len =
     (case buffer data offset (int len) of
        Inl e \<Rightarrow> Inl e
      | Inr b \<Rightarrow> (case utf8_decode b of Inl e \<Rightarrow> Inl e | Inr s \<Rightarrow> Inr (VUnicode s)))"

definition ChannelNumber_decode :: "bytes \<Rightarrow> nat \<Rightarrow> nat \<Rightarrow> error + attr_value" where
  "ChannelNumber_decode data offset len =
     (case unpack_from 4 (\<lambda>d i. [u16_at d i]) data offset of
        Inl e \<Rightarrow> Inl e
      | Inr t \<Rightarrow> Inr (VTuple t))"

definition EvenPort_decode :: "bytes \<Rightarrow> nat \<Rightarrow> nat \<Rightarrow> error + attr_value" where
  "EvenPort_decode data offset len =
     (case unpack_from 1 u8_at data offset of
        Inl e \<Rightarrow> Inl e
      | Inr b \<Rightarrow> Inr (VInt (b AND 128)))"

definition RequestedTransport_decode :: "bytes \<Rightarrow> nat \<Rightarrow> nat \<Rightarrow> error + attr_value" where
  "RequestedTransport_decode data offset len =
     (case unpack_from 4 u8_at data offset of
        Inl e \<Rightarrow> Inl e
      | Inr protocol \<Rightarrow> Inr (VInt protocol))"

definition ChangeRequest_decode :: "bytes \<Rightarrow> nat \<Rightarrow> nat \<Rightarrow> error + attr_value" where
  "ChangeRequest_decode data offset len =
     (case unpack_from 4 u32_at data offset of
        Inl e \<Rightarrow> Inl e
      | Inr flags \<Rightarrow> Inr (VTuple [flags AND 4, flags AND 2]))"

definition ResponsePort_decode :: "bytes \<Rightarrow> nat \<Rightarrow> nat \<Rightarrow> error + attr_value" where
  "ResponsePort_decode data offset len =
     (case unpack_from 4 u16_at data offset of
        Inl e \<Rightarrow> Inl e
      | Inr port \<Rightarrow> Inr (VInt port))"

text \<open>\<open>factory.decode\<close>: the method each class has, its own or the inherited one.\<close>

fun factory_decode :: "factory \<Rightarrow> bytes \<Rightarrow> nat \<Rightarrow> nat \<Rightarrow> error + attr_value" where
  "factory_decode UnknownAttribute = StunMessageAttribute_decode"
| "factory_decode MappedAddress = MappedAddress_decode"
| "factory_decode XorMappedAddress = XorMappedAddress_decode"
| "factory_decode Username = Username_decode"
| "factory_decode MessageIntegrity = StunMessageAttribute_decode"
| "factory_decode Fingerprint = StunMessageAttribute_decode"
| "factory_decode ErrorCode = ErrorCode_decode"
| "factory_decode Realm = Realm_decode"
| "factory_decode Nonce = StunMessageAttribute_decode"
| "factory_decode UnknownAttributes = UnknownAttributes_decode"
| "factory_decode Software = Software_decode"
| "factory_decode AlternateServer = MappedAddress_decode"
| "factory_decode ChannelNumber = ChannelNumber_decode"
| "factory_decode Lifetime = StunMessageAttribute_decode"
| "factory_decode XorPeerAddress = XorMappedAddress_decode"
| "factory_decode Data = StunMessageAttribute_decode"
| "factory_decode XorRelayedAddress = XorMappedAddress_decode"
| "factory_decode EvenPort = EvenPort_decode"
| "factory_decode RequestedTransport = RequestedTransport_decode"
| "factory_decode ChangeRequest = ChangeRequest_decode"
| "factory_decode ResponseOrigin = MappedAddress_decode"
| "factory_decode OtherAddress = MappedAddress_decode"
| "factory_decode ResponsePort = ResponsePort_decode"
| "factory_decode Padding = StunMessageAttribute_decode"

subsection \<open>The registry of factories\<close>

text \<open>
  \<open>StunMessage._ATTRIBUTE_FACTORIES\<close> is a dictionary from type codes to classes. It is
  class state that \<open>add_attribute_factory\<close> updates; here it is passed and returned.
  An \<open>assert\<close> that fails raises \<open>AssertionError\<close> (the interpreter's default mode).
\<close>

type_synonym registry = "nat \<rightharpoonup> factory"

definition add_attribute_factory :: "registry \<Rightarrow> nat \<Rightarrow> factory \<Rightarrow> error + registry" where
  "add_attribute_factory reg a_type fac =
     (if reg a_type \<noteq> None then Inl AssertionError
      else Inr (reg(a_type \<mapsto> fac)))"

text \<open>The \<open>@stunattribute\<close> decorations of the module, in the order they run.\<close>

definition stunattributes :: "(nat \<times> factory) list" where
  "stunattributes =
     [(ATTRIBUTE_MAPPED_ADDRESS, MappedAddress),
      (ATTRIBUTE_XOR_MAPPED_ADDRESS, XorMappedAddress),
      (ATTRIBUTE_USERNAME, Username),
      (ATTRIBUTE_MESSAGE_INTEGRITY, MessageIntegrity),
      (ATTRIBUTE_FINGERPRINT, Fingerprint),
      (ATTRIBUTE_ERROR_CODE, ErrorCode),
      (ATTRIBUTE_REALM, Realm),
      (ATTRIBUTE_NONCE, Nonce),
      (ATTRIBUTE_UNKNOWN_ATTRIBUTES, UnknownAttributes),
      (ATTRIBUTE_SOFTWARE, Software),
      (ATTRIBUTE_ALTERNATE_SERVER, AlternateServer),
      (ATTRIBUTE_CHANNEL_NUMBER, ChannelNumber),
      (ATTRIBUTE_LIFETIME, Lifetime),
      (ATTRIBUTE_XOR_PEER_ADDRESS, XorPeerAddress),
      (ATTRIBUTE_DATA, Data),
      (ATTRIBUTE_XOR_RELAYED_ADDRESS, XorRelayedAddress),
      (ATTRIBUTE_EVEN_PORT, EvenPort),
      (ATTRIBUTE_REQUESTED_TRANSPORT, RequestedTransport),
      (ATTRIBUTE_CHANGE_REQUEST, ChangeRequest),
      (ATTRIBUTE_RESPONSE_ORIGIN, ResponseOrigin),
      (ATTRIBUTE_OTHER_ADDRESS, OtherAddress),
      (ATTRIBUTE_RESPONSE_PORT, ResponsePort),
      (ATTRIBUTE_PADDING, Padding)]"

fun register_all :: "(nat \<times> factory) list \<Rightarrow> registry \<Rightarrow> error + registry" where
  "register_all [] reg = Inr reg"
| "register_all ((t, fac) # rest) reg =
     (case add_attribute_factory reg t fac of
        Inl e \<Rightarrow> Inl e
      | Inr reg' \<Rightarrow> register_all rest reg')"

text \<open>The registry once the module is loaded: the dictionary with these entries.\<close>

definition module_registry :: registry where
  "module_registry = map_of stunattributes"

subsection \<open>Decoding the attributes\<close>

text \<open>
  One round of the loop of \<open>decode_attributes\<close>: the attribute at \<open>offset\<close> and the
  offset of the next round.
\<close>

definition decode_attribute ::
  "registry \<Rightarrow> bytes \<Rightarrow> nat \<Rightarrow> error + (StunMessageAttribute \<times> nat)" where
  "decode_attribute reg data offset =
     (case unpack_from 4 (\<lambda>d i. (u16_at d i, u16_at d (i + 2))) data offset of
        Inl e \<Rightarrow> Inl e
      | Inr (a_type, a_length) \<Rightarrow>
          (let offset = offset + HEADER_SIZE;
               fac = (case reg a_type of None \<Rightarrow> UnknownAttribute | Some f \<Rightarrow> f)
           in case factory_decode fac data offset a_length of
                Inl e \<Rightarrow> Inl e
              | Inr a_value \<Rightarrow>
                  (let padding = a_length mod 4
                   in Inr (\<lparr>attr_class = fac, attr_type = a_type,
                             attr_length = a_length, attr_value = a_value\<rparr>,
                           offset + a_length + padding))))"

text \<open>
  The loop \<open>while offset < end\<close>. The generator is consumed to its end by \<open>tuple(...)\<close>
  in \<open>decode\<close>, so the attributes are a list; the offset the loop stops at is returned
  with them.
\<close>

function decode_attributes_loop ::
  "registry \<Rightarrow> bytes \<Rightarrow> nat \<Rightarrow> nat \<Rightarrow> error + (StunMessageAttribute list \<times> nat)" where
  "decode_attributes_loop reg data offset end_off =
     (if offset < end_off then
        (case decode_attribute reg data offset of
           Inl e \<Rightarrow> Inl e
         | Inr (a, offset') \<Rightarrow>
             (case decode_attributes_loop reg data offset' end_off of
                Inl e \<Rightarrow> Inl e
              | Inr (as, final) \<Rightarrow> Inr (a # as, final)))
      else Inr ([], offset))"
  by pat_completeness auto
termination
proof (relation "measure (\<lambda>(reg, data, offset, end_off). end_off - offset)")
  show "wf (measure (\<lambda>(reg, data, offset, end_off). end_off - offset))"
    by simp
next
  fix reg :: registry and data :: bytes and offset end_off :: nat
    and x :: "StunMessageAttribute \<times> nat" and a :: StunMessageAttribute and offset' :: nat
  assume "offset < end_off" and "decode_attribute reg data offset = Inr x" and "(a, offset') = x"
  then have "offset + 4 \<le> offset'"
    by (auto simp: decode_attribute_def HEADER_SIZE_def Let_def split: sum.splits prod.splits)
  with \<open>offset < end_off\<close>
  show "((reg, data, offset', end_off), (reg, data, offset, end_off))
          \<in> measure (\<lambda>(reg, data, offset, end_off). end_off - offset)"
    by simp
qed

declare decode_attributes_loop.simps [simp del]

definition decode_attributes ::
  "registry \<Rightarrow> bytes \<Rightarrow> nat \<Rightarrow> nat \<Rightarrow> error + StunMessageAttribute list" where
  "decode_attributes reg data offset len =
     (case decode_attributes_loop reg data offset (offset + len) of
        Inl e \<Rightarrow> Inl e
      | Inr (as, final) \<Rightarrow> Inr as)"

subsection \<open>Decoding the message\<close>

text \<open>
  \<open>StunMessage.decode(data, offset)\<close>. \<open>data[offset]\<close> raises \<open>IndexError\<close> out of
  range. The header is unpacked by \<open>struct.unpack_from(cls._HEADER_FORMAT, data)\<close>,
  a call without an offset, which reads at offset \<open>0\<close>.
\<close>

definition StunMessage_decode :: "registry \<Rightarrow> bytes \<Rightarrow> nat \<Rightarrow> error + StunMessage" where
  "StunMessage_decode reg data offset =
     (if length data \<le> offset then Inl IndexError
      else if drop_bit 6 (u8_at data offset) \<noteq> FORMAT_STUN then Inl AssertionError
      else case unpack_from 20
                  (\<lambda>d i. (u16_at d i, u16_at d (i + 2), u32_at d (i + 4), take 12 (drop (i + 8) d)))
                  data 0 of
             Inl e \<Rightarrow> Inl e
           | Inr (m_type, m_length, cookie, tid) \<Rightarrow>
               (let m_type = m_type AND 0x3fff;
                    m_method = m_type AND 0xfeef;
                    m_class = drop_bit 4 m_type AND 0x11;
                    offset = offset + HEADER_SIZE_msg
                in case decode_attributes reg data offset m_length of
                     Inl e \<Rightarrow> Inl e
                   | Inr attrs \<Rightarrow>
                       Inr \<lparr>msg_method = m_method, msg_class = m_class,
                            msg_length = m_length, magic_cookie = cookie,
                            transaction_id = tid, attributes = attrs\<rparr>))"

text \<open>\<open>StunMessage.__len__\<close>\<close>

definition StunMessage_len :: "StunMessage \<Rightarrow> nat" where
  "StunMessage_len m = HEADER_SIZE_msg + msg_length m"

subsection \<open>Example buffers\<close>

text \<open>The buffer that the module decodes when it is loaded (\<open>msg_data\<close>).\<close>

definition msg_data :: bytes where
  "msg_data =
     [0x01,0x01,0x00,0x58,0x21,0x12,0xa4,0x42,0x7a,0x2f,0x2b,0x50,0x4c,0x6a,0x74,0x57,
      0x52,0x61,0x6c,0x56,0x00,0x20,0x00,0x08,0x00,0x01,0x91,0x17,0x0f,0x01,0xb0,0x20,
      0x00,0x01,0x00,0x08,0x00,0x01,0xb0,0x05,0x2e,0x13,0x14,0x62,0x80,0x2b,0x00,0x08,
      0x00,0x01,0x0d,0x96,0x0a,0xf0,0xd7,0xb4,0x80,0x2c,0x00,0x08,0x00,0x01,0x0d,0x97,
      0x0a,0xf0,0xd7,0xb4,0x80,0x22,0x00,0x1a,0x43,0x69,0x74,0x72,0x69,0x78,0x2d,0x31,
      0x2e,0x38,0x2e,0x37,0x2e,0x30,0x20,0x27,0x42,0x6c,0x61,0x63,0x6b,0x20,0x44,0x6f,
      0x77,0x27,0x42,0x4e,0x80,0x28,0x00,0x04,0xae,0xa9,0x05,0x59]"

text \<open>
  A Binding request of 16 attribute bytes: EVEN-PORT with a value of one byte and its
  three bytes of padding, then LIFETIME with the value 600.
\<close>

definition even_port_msg :: bytes where
  "even_port_msg =
     [0x00,0x01,0x00,0x10,0x21,0x12,0xa4,0x42,0x7a,0x2f,0x2b,0x50,0x4c,0x6a,0x74,0x57,
      0x52,0x61,0x6c,0x56,
      0x00,0x18,0x00,0x01,0x80,0x00,0x00,0x00,
      0x00,0x0d,0x00,0x04,0x00,0x00,0x02,0x58]"

text \<open>
  A header that declares 4 attribute bytes, followed by a USERNAME attribute of 8 bytes
  (header and the value \<open>abcd\<close>).
\<close>

definition overshoot_msg :: bytes where
  "overshoot_msg =
     [0x00,0x01,0x00,0x04,0x21,0x12,0xa4,0x42,0x7a,0x2f,0x2b,0x50,0x4c,0x6a,0x74,0x57,
      0x52,0x61,0x6c,0x56,
      0x00,0x06,0x00,0x04,0x61,0x62,0x63,0x64]"

text \<open>
  A Binding error response with ERROR-CODE 401 and the reason phrase \<open>Unauthorized\<close>.
\<close>

definition error_msg :: bytes where
  "error_msg =
     [0x01,0x11,0x00,0x14,0x21,0x12,0xa4,0x42,0x7a,0x2f,0x2b,0x50,0x4c,0x6a,0x74,0x57,
      0x52,0x61,0x6c,0x56,
      0x00,0x09,0x00,0x10,0x00,0x00,0x04,0x01,
      0x55,0x6e,0x61,0x75,0x74,0x68,0x6f,0x72,0x69,0x7a,0x65,0x64]"

text \<open>
  Two messages one after the other, as on a stream: a Binding request without
  attributes, then (at offset 20) a Binding success response with a MAPPED-ADDRESS.
\<close>

definition second_msg :: bytes where
  "second_msg =
     [0x01,0x01,0x00,0x0c,0x21,0x12,0xa4,0x42,0x11,0x22,0x33,0x44,0x55,0x66,0x77,0x88,
      0x99,0xaa,0xbb,0xcc,
      0x00,0x01,0x00,0x08,0x00,0x01,0x12,0x34,0xc0,0x00,0x02,0x01]"

definition stream_data :: bytes where
  "stream_data =
     [0x00,0x01,0x00,0x00,0x21,0x12,0xa4,0x42,0x7a,0x2f,0x2b,0x50,0x4c,0x6a,0x74,0x57,
      0x52,0x61,0x6c,0x56] @ second_msg"

text \<open>A Binding success response whose MAPPED-ADDRESS declares the family 3.\<close>

definition family3_msg :: bytes where
  "family3_msg =
     [0x01,0x01,0x00,0x0c,0x21,0x12,0xa4,0x42,0x7a,0x2f,0x2b,0x50,0x4c,0x6a,0x74,0x57,
      0x52,0x61,0x6c,0x56,
      0x00,0x01,0x00,0x08,0x00,0x03,0x12,0x34,0xc0,0x00,0x02,0x01]"


section \<open>Properties\<close>

subsection \<open>Evaluation\<close>

lemmas attr_consts =
  ATTRIBUTE_MAPPED_ADDRESS_def ATTRIBUTE_USERNAME_def ATTRIBUTE_MESSAGE_INTEGRITY_def
  ATTRIBUTE_ERROR_CODE_def ATTRIBUTE_UNKNOWN_ATTRIBUTES_def ATTRIBUTE_REALM_def
  ATTRIBUTE_NONCE_def ATTRIBUTE_XOR_MAPPED_ADDRESS_def ATTRIBUTE_SOFTWARE_def
  ATTRIBUTE_ALTERNATE_SERVER_def ATTRIBUTE_FINGERPRINT_def ATTRIBUTE_CHANNEL_NUMBER_def
  ATTRIBUTE_LIFETIME_def ATTRIBUTE_XOR_PEER_ADDRESS_def ATTRIBUTE_DATA_def
  ATTRIBUTE_XOR_RELAYED_ADDRESS_def ATTRIBUTE_EVEN_PORT_def ATTRIBUTE_REQUESTED_TRANSPORT_def
  ATTRIBUTE_CHANGE_REQUEST_def ATTRIBUTE_PADDING_def ATTRIBUTE_RESPONSE_PORT_def
  ATTRIBUTE_RESPONSE_ORIGIN_def ATTRIBUTE_OTHER_ADDRESS_def

text \<open>
  Running the decorations of the module on the empty dictionary raises nothing and
  gives \<open>module_registry\<close>.
\<close>

lemma register_all_stunattributes:
  "register_all stunattributes Map.empty = Inr module_registry"
  unfolding stunattributes_def module_registry_def
  by (simp add: add_attribute_factory_def attr_consts) (rule ext, simp)

lemma module_registry_cases:
  "module_registry t =
     map_of [(0x0001, MappedAddress), (0x0020, XorMappedAddress), (0x0006, Username),
             (0x0008, MessageIntegrity), (0x8028, Fingerprint), (0x0009, ErrorCode),
             (0x0014, Realm), (0x0015, Nonce), (0x000A, UnknownAttributes),
             (0x8022, Software), (0x8023, AlternateServer), (0x000C, ChannelNumber),
             (0x000D, Lifetime), (0x0012, XorPeerAddress), (0x0013, Data),
             (0x0016, XorRelayedAddress), (0x0018, EvenPort), (0x0019, RequestedTransport),
             (0x0003, ChangeRequest), (0x802b, ResponseOrigin), (0x802c, OtherAddress),
             (0x0027, ResponsePort), (0x0026, Padding)] t"
  by (simp only: module_registry_def stunattributes_def attr_consts)

lemmas eval_defs =
  decode_attribute_def unpack_from_def buffer_def HEADER_SIZE_def HEADER_SIZE_msg_def
  VALUE_HEADER_SIZE_def FAMILY_IPv4_def FAMILY_IPv6_def FORMAT_STUN_def
  StunMessageAttribute_decode_def MappedAddress_decode_def XorMappedAddress_decode_def
  Username_decode_def ErrorCode_decode_def Software_decode_def EvenPort_decode_def
  u8_at_def u16_at_def u32_at_def utf8_code_length_def utf8_char_def utf8_cont_def
  module_registry_cases

subsection \<open>The loop, one round at a time\<close>

lemma decode_attributes_loop_stop:
  "\<not> offset < end_off \<Longrightarrow> decode_attributes_loop reg data offset end_off = Inr ([], offset)"
  by (subst decode_attributes_loop.simps) simp

lemma decode_attributes_loop_round:
  "offset < end_off \<Longrightarrow> decode_attribute reg data offset = Inr (a, offset') \<Longrightarrow>
   decode_attributes_loop reg data offset' end_off = Inr (as, final) \<Longrightarrow>
   decode_attributes_loop reg data offset end_off = Inr (a # as, final)"
  by (subst decode_attributes_loop.simps) simp

lemma decode_attribute_Inr:
  assumes "decode_attribute reg data offset = Inr (a, offset')"
  shows "offset + 4 \<le> length data"
    and "attr_type a = u16_at data offset"
    and "attr_length a = u16_at data (offset + 2)"
    and "offset' = offset + 4 + attr_length a + attr_length a mod 4"
  using assms
  by (auto simp: decode_attribute_def unpack_from_def HEADER_SIZE_def Let_def
           split: sum.splits if_splits)

lemma decode_attributes_loop_final:
  "decode_attributes_loop reg data offset end_off = Inr (as, final) \<Longrightarrow>
   end_off \<le> final \<and> offset \<le> final \<and> (as = [] \<longrightarrow> final = offset) \<and>
   (as \<noteq> [] \<longrightarrow>
      (\<exists>start. offset \<le> start \<and> start < end_off \<and>
         decode_attribute reg data start = Inr (last as, final)))"
proof (induction reg data offset end_off arbitrary: as final rule: decode_attributes_loop.induct)
  case (1 reg data offset end_off)
  show ?case
  proof (cases "offset < end_off")
    case False
    with "1.prems" show ?thesis
      by (subst (asm) decode_attributes_loop.simps) simp
  next
    case True
    from True "1.prems" obtain a offset' as' where
      step: "decode_attribute reg data offset = Inr (a, offset')" and
      rest: "decode_attributes_loop reg data offset' end_off = Inr (as', final)" and
      as: "as = a # as'"
      by (subst (asm) decode_attributes_loop.simps) (auto split: sum.splits prod.splits)
    have adv: "offset \<le> offset'"
      using decode_attribute_Inr(4) [OF step] by simp
    have ih: "end_off \<le> final \<and> offset' \<le> final \<and> (as' = [] \<longrightarrow> final = offset') \<and>
        (as' \<noteq> [] \<longrightarrow>
          (\<exists>start. offset' \<le> start \<and> start < end_off \<and>
             decode_attribute reg data start = Inr (last as', final)))"
      using "1.IH" [OF True step refl rest] .
    show ?thesis
    proof (cases "as' = []")
      case True
      with ih step as \<open>offset < end_off\<close> adv show ?thesis
        by auto
    next
      case False
      with ih obtain start where "offset' \<le> start" "start < end_off"
        "decode_attribute reg data start = Inr (last as', final)"
        by blast
      with ih as adv False show ?thesis
        by (auto intro!: exI [of _ start])
    qed
  qed
qed

subsection \<open>The message decoder in terms of the loop\<close>

lemma StunMessage_decode_Inr:
  assumes "offset < length data" and "drop_bit 6 (u8_at data offset) = 0"
    and "20 \<le> length data"
    and "decode_attributes_loop reg data (offset + 20) (offset + 20 + u16_at data 2)
           = Inr (as, final)"
  shows "StunMessage_decode reg data offset =
     Inr \<lparr>msg_method = (u16_at data 0 AND 0x3fff) AND 0xfeef,
          msg_class = drop_bit 4 (u16_at data 0 AND 0x3fff) AND 0x11,
          msg_length = u16_at data 2, magic_cookie = u32_at data 4,
          transaction_id = take 12 (drop 8 data), attributes = as\<rparr>"
  using assms
  by (simp add: StunMessage_decode_def unpack_from_def decode_attributes_def
        FORMAT_STUN_def HEADER_SIZE_msg_def Let_def del: add_2_eq_Suc add_2_eq_Suc')

lemma StunMessage_decode_InrD:
  assumes "StunMessage_decode reg data offset = Inr m"
  shows "msg_length m = u16_at data 2"
    and "\<exists>final. decode_attributes_loop reg data (offset + 20) (offset + 20 + msg_length m)
           = Inr (attributes m, final)"
  using assms
  by (auto simp: StunMessage_decode_def unpack_from_def decode_attributes_def
        HEADER_SIZE_msg_def Let_def simp del: add_2_eq_Suc add_2_eq_Suc'
        split: if_splits sum.splits prod.splits)

subsection \<open>The example buffers, decoded\<close>

lemma msg_data_attributes:
  "decode_attributes_loop module_registry msg_data 20 108 =
     Inr ([\<lparr>attr_class = XorMappedAddress, attr_type = 0x0020, attr_length = 8,
             attr_value = VAddress 1 0xb005 [0x2e, 0x13, 0x14, 0x62]\<rparr>,
           \<lparr>attr_class = MappedAddress, attr_type = 0x0001, attr_length = 8,
             attr_value = VAddress 1 0xb005 [0x2e, 0x13, 0x14, 0x62]\<rparr>,
           \<lparr>attr_class = ResponseOrigin, attr_type = 0x802b, attr_length = 8,
             attr_value = VAddress 1 0x0d96 [0x0a, 0xf0, 0xd7, 0xb4]\<rparr>,
           \<lparr>attr_class = OtherAddress, attr_type = 0x802c, attr_length = 8,
             attr_value = VAddress 1 0x0d97 [0x0a, 0xf0, 0xd7, 0xb4]\<rparr>,
           \<lparr>attr_class = Software, attr_type = 0x8022, attr_length = 26,
             attr_value = VUnicode [67, 105, 116, 114, 105, 120, 45, 49, 46, 56, 46, 55, 46,
                                    48, 32, 39, 66, 108, 97, 99, 107, 32, 68, 111, 119, 39]\<rparr>,
           \<lparr>attr_class = Fingerprint, attr_type = 0x8028, attr_length = 4,
             attr_value = VBuffer [0xae, 0xa9, 0x05, 0x59]\<rparr>], 108)"
proof -
  have a1: "decode_attribute module_registry msg_data 20 =
     Inr (\<lparr>attr_class = XorMappedAddress, attr_type = 0x0020, attr_length = 8,
            attr_value = VAddress 1 0xb005 [0x2e, 0x13, 0x14, 0x62]\<rparr>, 32)"
    by (simp add: eval_defs msg_data_def)
  have a2: "decode_attribute module_registry msg_data 32 =
     Inr (\<lparr>attr_class = MappedAddress, attr_type = 0x0001, attr_length = 8,
            attr_value = VAddress 1 0xb005 [0x2e, 0x13, 0x14, 0x62]\<rparr>, 44)"
    by (simp add: eval_defs msg_data_def)
  have a3: "decode_attribute module_registry msg_data 44 =
     Inr (\<lparr>attr_class = ResponseOrigin, attr_type = 0x802b, attr_length = 8,
            attr_value = VAddress 1 0x0d96 [0x0a, 0xf0, 0xd7, 0xb4]\<rparr>, 56)"
    by (simp add: eval_defs msg_data_def)
  have a4: "decode_attribute module_registry msg_data 56 =
     Inr (\<lparr>attr_class = OtherAddress, attr_type = 0x802c, attr_length = 8,
            attr_value = VAddress 1 0x0d97 [0x0a, 0xf0, 0xd7, 0xb4]\<rparr>, 68)"
    by (simp add: eval_defs msg_data_def)
  have a5: "decode_attribute module_registry msg_data 68 =
     Inr (\<lparr>attr_class = Software, attr_type = 0x8022, attr_length = 26,
            attr_value = VUnicode [67, 105, 116, 114, 105, 120, 45, 49, 46, 56, 46, 55, 46,
                                   48, 32, 39, 66, 108, 97, 99, 107, 32, 68, 111, 119, 39]\<rparr>, 100)"
    by (simp add: eval_defs msg_data_def)
  have a6: "decode_attribute module_registry msg_data 100 =
     Inr (\<lparr>attr_class = Fingerprint, attr_type = 0x8028, attr_length = 4,
            attr_value = VBuffer [0xae, 0xa9, 0x05, 0x59]\<rparr>, 108)"
    by (simp add: eval_defs msg_data_def)
  have stop: "decode_attributes_loop module_registry msg_data 108 108 = Inr ([], 108)"
    by (rule decode_attributes_loop_stop) simp
  note r = decode_attributes_loop_round
  show ?thesis
    by (rule r [OF _ a1] r [OF _ a2] r [OF _ a3] r [OF _ a4] r [OF _ a5] r [OF _ a6] stop
        | simp)+
qed

lemma msg_data_header:
  "length msg_data = 108" "u8_at msg_data 0 = 1" "u16_at msg_data 0 = 0x0101"
  "u16_at msg_data 2 = 88" "u32_at msg_data 4 = 0x2112A442"
  "take 12 (drop 8 msg_data)
     = [0x7a, 0x2f, 0x2b, 0x50, 0x4c, 0x6a, 0x74, 0x57, 0x52, 0x61, 0x6c, 0x56]"
  by (simp_all add: msg_data_def u8_at_def u16_at_def u32_at_def)

lemma msg_data_decode:
  "StunMessage_decode module_registry msg_data 0 =
     Inr \<lparr>msg_method = 1, msg_class = 0x10, msg_length = 88, magic_cookie = 0x2112A442,
          transaction_id =
            [0x7a, 0x2f, 0x2b, 0x50, 0x4c, 0x6a, 0x74, 0x57, 0x52, 0x61, 0x6c, 0x56],
          attributes =
            [\<lparr>attr_class = XorMappedAddress, attr_type = 0x0020, attr_length = 8,
               attr_value = VAddress 1 0xb005 [0x2e, 0x13, 0x14, 0x62]\<rparr>,
             \<lparr>attr_class = MappedAddress, attr_type = 0x0001, attr_length = 8,
               attr_value = VAddress 1 0xb005 [0x2e, 0x13, 0x14, 0x62]\<rparr>,
             \<lparr>attr_class = ResponseOrigin, attr_type = 0x802b, attr_length = 8,
               attr_value = VAddress 1 0x0d96 [0x0a, 0xf0, 0xd7, 0xb4]\<rparr>,
             \<lparr>attr_class = OtherAddress, attr_type = 0x802c, attr_length = 8,
               attr_value = VAddress 1 0x0d97 [0x0a, 0xf0, 0xd7, 0xb4]\<rparr>,
             \<lparr>attr_class = Software, attr_type = 0x8022, attr_length = 26,
               attr_value = VUnicode [67, 105, 116, 114, 105, 120, 45, 49, 46, 56, 46, 55, 46,
                                      48, 32, 39, 66, 108, 97, 99, 107, 32, 68, 111, 119, 39]\<rparr>,
             \<lparr>attr_class = Fingerprint, attr_type = 0x8028, attr_length = 4,
               attr_value = VBuffer [0xae, 0xa9, 0x05, 0x59]\<rparr>]\<rparr>"
proof -
  have loop: "decode_attributes_loop module_registry msg_data (0 + 20)
                (0 + 20 + u16_at msg_data 2) = decode_attributes_loop module_registry msg_data 20 108"
    by (simp add: msg_data_header)
  show ?thesis
    using StunMessage_decode_Inr [of 0 msg_data module_registry, OF _ _ _ loop [THEN trans],
            OF _ _ _ msg_data_attributes]
    by (simp add: msg_data_header)
qed

lemma even_port_msg_header:
  "length even_port_msg = 36" "u8_at even_port_msg 0 = 0" "u16_at even_port_msg 0 = 1"
  "u16_at even_port_msg 2 = 16" "u32_at even_port_msg 4 = 0x2112A442"
  "take 12 (drop 8 even_port_msg)
     = [0x7a, 0x2f, 0x2b, 0x50, 0x4c, 0x6a, 0x74, 0x57, 0x52, 0x61, 0x6c, 0x56]"
  by (simp_all add: even_port_msg_def u8_at_def u16_at_def u32_at_def)

lemma even_port_msg_first:
  "decode_attribute module_registry even_port_msg 20 =
     Inr (\<lparr>attr_class = EvenPort, attr_type = 0x0018, attr_length = 1,
            attr_value = VInt 128\<rparr>, 26)"
  by (simp add: eval_defs even_port_msg_def)

lemma even_port_msg_second:
  "decode_attribute module_registry even_port_msg 26 =
     Inr (\<lparr>attr_class = UnknownAttribute, attr_type = 0, attr_length = 13,
            attr_value = VBuffer [0x00, 0x04, 0x00, 0x00, 0x02, 0x58]\<rparr>, 44)"
  by (simp add: eval_defs even_port_msg_def)

lemma even_port_msg_attributes:
  "decode_attributes_loop module_registry even_port_msg 20 36 =
     Inr ([\<lparr>attr_class = EvenPort, attr_type = 0x0018, attr_length = 1,
             attr_value = VInt 128\<rparr>,
           \<lparr>attr_class = UnknownAttribute, attr_type = 0, attr_length = 13,
             attr_value = VBuffer [0x00, 0x04, 0x00, 0x00, 0x02, 0x58]\<rparr>], 44)"
proof -
  have stop: "decode_attributes_loop module_registry even_port_msg 44 36 = Inr ([], 44)"
    by (rule decode_attributes_loop_stop) simp
  note r = decode_attributes_loop_round
  show ?thesis
    by (rule r [OF _ even_port_msg_first] r [OF _ even_port_msg_second] stop | simp)+
qed

lemma even_port_msg_decode:
  "StunMessage_decode module_registry even_port_msg 0 =
     Inr \<lparr>msg_method = 1, msg_class = 0, msg_length = 16, magic_cookie = 0x2112A442,
          transaction_id =
            [0x7a, 0x2f, 0x2b, 0x50, 0x4c, 0x6a, 0x74, 0x57, 0x52, 0x61, 0x6c, 0x56],
          attributes =
            [\<lparr>attr_class = EvenPort, attr_type = 0x0018, attr_length = 1,
               attr_value = VInt 128\<rparr>,
             \<lparr>attr_class = UnknownAttribute, attr_type = 0, attr_length = 13,
               attr_value = VBuffer [0x00, 0x04, 0x00, 0x00, 0x02, 0x58]\<rparr>]\<rparr>"
proof -
  have loop: "decode_attributes_loop module_registry even_port_msg (0 + 20)
                (0 + 20 + u16_at even_port_msg 2)
              = decode_attributes_loop module_registry even_port_msg 20 36"
    by (simp add: even_port_msg_header)
  show ?thesis
    using StunMessage_decode_Inr [of 0 even_port_msg module_registry,
            OF _ _ _ loop [THEN trans], OF _ _ _ even_port_msg_attributes]
    by (simp add: even_port_msg_header)
qed

lemma overshoot_msg_header:
  "length overshoot_msg = 28" "u8_at overshoot_msg 0 = 0" "u16_at overshoot_msg 0 = 1"
  "u16_at overshoot_msg 2 = 4" "u32_at overshoot_msg 4 = 0x2112A442"
  "take 12 (drop 8 overshoot_msg)
     = [0x7a, 0x2f, 0x2b, 0x50, 0x4c, 0x6a, 0x74, 0x57, 0x52, 0x61, 0x6c, 0x56]"
  by (simp_all add: overshoot_msg_def u8_at_def u16_at_def u32_at_def)

lemma overshoot_msg_first:
  "decode_attribute module_registry overshoot_msg 20 =
     Inr (\<lparr>attr_class = Username, attr_type = 0x0006, attr_length = 4,
            attr_value = VUnicode [97, 98, 99, 100]\<rparr>, 28)"
  by (simp add: eval_defs overshoot_msg_def)

lemma overshoot_msg_attributes:
  "decode_attributes_loop module_registry overshoot_msg 20 24 =
     Inr ([\<lparr>attr_class = Username, attr_type = 0x0006, attr_length = 4,
             attr_value = VUnicode [97, 98, 99, 100]\<rparr>], 28)"
proof -
  have stop: "decode_attributes_loop module_registry overshoot_msg 28 24 = Inr ([], 28)"
    by (rule decode_attributes_loop_stop) simp
  show ?thesis
    by (rule decode_attributes_loop_round [OF _ overshoot_msg_first] stop | simp)+
qed

lemma overshoot_msg_decode:
  "StunMessage_decode module_registry overshoot_msg 0 =
     Inr \<lparr>msg_method = 1, msg_class = 0, msg_length = 4, magic_cookie = 0x2112A442,
          transaction_id =
            [0x7a, 0x2f, 0x2b, 0x50, 0x4c, 0x6a, 0x74, 0x57, 0x52, 0x61, 0x6c, 0x56],
          attributes =
            [\<lparr>attr_class = Username, attr_type = 0x0006, attr_length = 4,
               attr_value = VUnicode [97, 98, 99, 100]\<rparr>]\<rparr>"
proof -
  have loop: "decode_attributes_loop module_registry overshoot_msg (0 + 20)
                (0 + 20 + u16_at overshoot_msg 2)
              = decode_attributes_loop module_registry overshoot_msg 20 24"
    by (simp add: overshoot_msg_header)
  show ?thesis
    using StunMessage_decode_Inr [of 0 overshoot_msg module_registry,
            OF _ _ _ loop [THEN trans], OF _ _ _ overshoot_msg_attributes]
    by (simp add: overshoot_msg_header)
qed

lemma error_msg_first:
  "decode_attribute module_registry error_msg 20 =
     Inr (\<lparr>attr_class = ErrorCode, attr_type = 0x0009, attr_length = 16,
            attr_value = VErrorCode 4 1
              [0, 0, 4, 1, 85, 110, 97, 117, 116, 104, 111, 114, 105, 122, 101, 100]\<rparr>, 40)"
  by (simp add: eval_defs error_msg_def)

lemma second_msg_header:
  "length second_msg = 32" "u8_at second_msg 0 = 1" "u16_at second_msg 0 = 0x0101"
  "u16_at second_msg 2 = 12" "u32_at second_msg 4 = 0x2112A442"
  "take 12 (drop 8 second_msg)
     = [0x11, 0x22, 0x33, 0x44, 0x55, 0x66, 0x77, 0x88, 0x99, 0xaa, 0xbb, 0xcc]"
  by (simp_all add: second_msg_def u8_at_def u16_at_def u32_at_def)

lemma second_msg_first:
  "decode_attribute module_registry second_msg 20 =
     Inr (\<lparr>attr_class = MappedAddress, attr_type = 0x0001, attr_length = 8,
            attr_value = VAddress 1 0x1234 [0xc0, 0x00, 0x02, 0x01]\<rparr>, 32)"
  by (simp add: eval_defs second_msg_def)

lemma second_msg_decode:
  "StunMessage_decode module_registry second_msg 0 =
     Inr \<lparr>msg_method = 1, msg_class = 0x10, msg_length = 12, magic_cookie = 0x2112A442,
          transaction_id =
            [0x11, 0x22, 0x33, 0x44, 0x55, 0x66, 0x77, 0x88, 0x99, 0xaa, 0xbb, 0xcc],
          attributes =
            [\<lparr>attr_class = MappedAddress, attr_type = 0x0001, attr_length = 8,
               attr_value = VAddress 1 0x1234 [0xc0, 0x00, 0x02, 0x01]\<rparr>]\<rparr>"
proof -
  have stop: "decode_attributes_loop module_registry second_msg 32 32 = Inr ([], 32)"
    by (rule decode_attributes_loop_stop) simp
  have attrs: "decode_attributes_loop module_registry second_msg 20 32 =
     Inr ([\<lparr>attr_class = MappedAddress, attr_type = 0x0001, attr_length = 8,
             attr_value = VAddress 1 0x1234 [0xc0, 0x00, 0x02, 0x01]\<rparr>], 32)"
    by (rule decode_attributes_loop_round [OF _ second_msg_first] stop | simp)+
  have loop: "decode_attributes_loop module_registry second_msg (0 + 20)
                (0 + 20 + u16_at second_msg 2)
              = decode_attributes_loop module_registry second_msg 20 32"
    by (simp add: second_msg_header)
  show ?thesis
    using StunMessage_decode_Inr [of 0 second_msg module_registry,
            OF _ _ _ loop [THEN trans], OF _ _ _ attrs]
    by (simp add: second_msg_header)
qed

lemma stream_data_header:
  "length stream_data = 52" "u8_at stream_data 20 = 1" "u16_at stream_data 0 = 1"
  "u16_at stream_data 2 = 0" "u32_at stream_data 4 = 0x2112A442"
  "take 12 (drop 8 stream_data)
     = [0x7a, 0x2f, 0x2b, 0x50, 0x4c, 0x6a, 0x74, 0x57, 0x52, 0x61, 0x6c, 0x56]"
  by (simp_all add: stream_data_def second_msg_def u8_at_def u16_at_def u32_at_def)

lemma stream_data_decode:
  "StunMessage_decode module_registry stream_data 20 =
     Inr \<lparr>msg_method = 1, msg_class = 0, msg_length = 0, magic_cookie = 0x2112A442,
          transaction_id =
            [0x7a, 0x2f, 0x2b, 0x50, 0x4c, 0x6a, 0x74, 0x57, 0x52, 0x61, 0x6c, 0x56],
          attributes = []\<rparr>"
proof -
  have loop: "decode_attributes_loop module_registry stream_data (20 + 20)
                (20 + 20 + u16_at stream_data 2) = Inr ([], 40)"
    by (subst decode_attributes_loop.simps) (simp add: stream_data_header)
  show ?thesis
    using StunMessage_decode_Inr [of 20 stream_data module_registry, OF _ _ _ loop]
    by (simp add: stream_data_header)
qed

lemma family3_msg_header:
  "length family3_msg = 32" "u8_at family3_msg 0 = 1" "u16_at family3_msg 0 = 0x0101"
  "u16_at family3_msg 2 = 12" "u32_at family3_msg 4 = 0x2112A442"
  "take 12 (drop 8 family3_msg)
     = [0x7a, 0x2f, 0x2b, 0x50, 0x4c, 0x6a, 0x74, 0x57, 0x52, 0x61, 0x6c, 0x56]"
  by (simp_all add: family3_msg_def u8_at_def u16_at_def u32_at_def)

lemma family3_msg_first:
  "decode_attribute module_registry family3_msg 20 =
     Inr (\<lparr>attr_class = MappedAddress, attr_type = 0x0001, attr_length = 8,
            attr_value = VAddress 3 0x1234 [0xc0, 0x00, 0x02, 0x01]\<rparr>, 32)"
  by (simp add: eval_defs family3_msg_def)

lemma family3_msg_decode:
  "StunMessage_decode module_registry family3_msg 0 =
     Inr \<lparr>msg_method = 1, msg_class = 0x10, msg_length = 12, magic_cookie = 0x2112A442,
          transaction_id =
            [0x7a, 0x2f, 0x2b, 0x50, 0x4c, 0x6a, 0x74, 0x57, 0x52, 0x61, 0x6c, 0x56],
          attributes =
            [\<lparr>attr_class = MappedAddress, attr_type = 0x0001, attr_length = 8,
               attr_value = VAddress 3 0x1234 [0xc0, 0x00, 0x02, 0x01]\<rparr>]\<rparr>"
proof -
  have stop: "decode_attributes_loop module_registry family3_msg 32 32 = Inr ([], 32)"
    by (rule decode_attributes_loop_stop) simp
  have attrs: "decode_attributes_loop module_registry family3_msg 20 32 =
     Inr ([\<lparr>attr_class = MappedAddress, attr_type = 0x0001, attr_length = 8,
             attr_value = VAddress 3 0x1234 [0xc0, 0x00, 0x02, 0x01]\<rparr>], 32)"
    by (rule decode_attributes_loop_round [OF _ family3_msg_first] stop | simp)+
  have loop: "decode_attributes_loop module_registry family3_msg (0 + 20)
                (0 + 20 + u16_at family3_msg 2)
              = decode_attributes_loop module_registry family3_msg 20 32"
    by (simp add: family3_msg_header)
  show ?thesis
    using StunMessage_decode_Inr [of 0 family3_msg module_registry,
            OF _ _ _ loop [THEN trans], OF _ _ _ attrs]
    by (simp add: family3_msg_header)
qed


subsection \<open>A round of the loop on an unregistered type\<close>



subsection \<open>Bytes and bits\<close>

lemma u8_at_less: "u8_at data i < 256"
  unfolding u8_at_def using unsigned_less [of "data ! i", where 'a = nat] by simp

lemma xor_low_byte:
  fixes a b :: nat
  assumes "b < 256"
  shows "push_bit 8 a XOR b = push_bit 8 a OR b"
proof -
  have "take_bit 8 b = b"
    using assms by (simp add: take_bit_nat_eq_self_iff)
  then have low: "n < 8" if "bit b n" for n
    using that by (metis bit_take_bit_iff)
  have "push_bit 8 a AND b = 0"
  proof (rule bit_eqI)
    fix n
    show "bit (push_bit 8 a AND b) n = bit (0 :: nat) n"
      using low [of n] by (auto simp: bit_and_iff bit_push_bit_iff)
  qed
  then show ?thesis
    by (rule disjunctive_xor_eq_or)
qed

lemma xor_zip_nth:
  assumes "offset + n \<le> length data" and "4 + n \<le> length data" and "n \<le> 16"
  shows "map (\<lambda>(a, b). a XOR b) (zip (take n (drop offset data)) (take 16 (drop 4 data)))
         = map (\<lambda>i. data ! (offset + i) XOR data ! (4 + i)) [0..<n]"
  using assms by (auto simp: list_eq_iff_nth_eq min_def)

section \<open>The claims\<close>

text \<open>
  C1: after an attribute with the declared length \<open>len\<close> the offset should advance by
  \<open>4 + len + (4 - len mod 4) mod 4\<close>. The loop adds \<open>len mod 4\<close> as padding instead.
  In \<open>even_port_msg\<close> the EVEN-PORT attribute at offset 20 has length 1 and three
  bytes of padding, so LIFETIME starts at offset 28; the loop goes on at offset 26 and
  reads an attribute of type 0 and length 13 there.
\<close>

theorem even_port_padding_misaligned:
  "decode_attribute module_registry even_port_msg 20 =
     Inr (\<lparr>attr_class = EvenPort, attr_type = ATTRIBUTE_EVEN_PORT, attr_length = 1,
            attr_value = VInt 128\<rparr>, 26)
   \<and> 20 + 4 + 1 + (4 - 1 mod 4) mod 4 = (28 :: nat)
   \<and> StunMessage_decode module_registry even_port_msg 0 =
     Inr \<lparr>msg_method = 1, msg_class = 0, msg_length = 16, magic_cookie = 0x2112A442,
          transaction_id =
            [0x7a, 0x2f, 0x2b, 0x50, 0x4c, 0x6a, 0x74, 0x57, 0x52, 0x61, 0x6c, 0x56],
          attributes =
            [\<lparr>attr_class = EvenPort, attr_type = ATTRIBUTE_EVEN_PORT, attr_length = 1,
               attr_value = VInt 128\<rparr>,
             \<lparr>attr_class = UnknownAttribute, attr_type = 0, attr_length = 13,
               attr_value = VBuffer [0x00, 0x04, 0x00, 0x00, 0x02, 0x58]\<rparr>]\<rparr>"
  by (simp add: even_port_msg_first even_port_msg_decode ATTRIBUTE_EVEN_PORT_def)

text \<open>
  C2: for XOR-MAPPED-ADDRESS, XOR-PEER-ADDRESS and XOR-RELAYED-ADDRESS with the family
  IPv4 or IPv6, in a buffer that holds the 20 bytes of the header and the value of the
  attribute, the decoded value is the family, the port xored with the first two bytes at
  offset 4, and the \<open>n\<close> address bytes (4 for IPv4, 16 for IPv6), each xored with the
  byte of the same index from offset 4 on.
\<close>

theorem XorMappedAddress_decode_deobfuscates:
  assumes "fac \<in> {XorMappedAddress, XorPeerAddress, XorRelayedAddress}"
    and "20 \<le> length data"
    and "u8_at data (offset + 1) = FAMILY_IPv4 \<and> n = 4
         \<or> u8_at data (offset + 1) = FAMILY_IPv6 \<and> n = 16"
    and "offset + 4 + n \<le> length data"
  shows "factory_decode fac data offset len =
     Inr (VAddress (u8_at data (offset + 1))
            (u16_at data (offset + 2) XOR (push_bit 8 (u8_at data 4) OR u8_at data 5))
            (map (\<lambda>i. data ! (offset + 4 + i) XOR data ! (4 + i)) [0..<n]))"
proof -
  have fd: "factory_decode fac = XorMappedAddress_decode"
    using assms(1) by auto
  have n16: "n \<le> 16" and n4: "4 + n \<le> length data"
    using assms(2,3) by auto
  have port: "u16_at data (offset + 2) XOR push_bit 8 (u8_at data 4) XOR u8_at data 5
              = u16_at data (offset + 2) XOR (push_bit 8 (u8_at data 4) OR u8_at data 5)"
    using xor_low_byte [OF u8_at_less, of "u8_at data 4" data 5]
    by (simp add: xor.assoc)
  have magic: "take 16 (drop 4 data) ! 0 = data ! 4" "take 16 (drop 4 data) ! 1 = data ! 5"
    using assms(2) by simp_all
  have addr: "map (\<lambda>(a, b). a XOR b)
                (zip (take n (drop (offset + 4) data)) (take 16 (drop 4 data)))
              = map (\<lambda>i. data ! (offset + 4 + i) XOR data ! (4 + i)) [0..<n]"
    using xor_zip_nth [of "offset + 4" n data] assms(4) n4 n16 by simp
  from assms(3) show ?thesis
  proof
    assume "u8_at data (offset + 1) = FAMILY_IPv4 \<and> n = 4"
    then show ?thesis
      using assms(2,4) port addr magic
      by (simp add: fd XorMappedAddress_decode_def unpack_from_def VALUE_HEADER_SIZE_def
            u8_at_def Let_def)
  next
    assume "u8_at data (offset + 1) = FAMILY_IPv6 \<and> n = 16"
    then show ?thesis
      using assms(2,4) port addr magic
      by (simp add: fd XorMappedAddress_decode_def unpack_from_def VALUE_HEADER_SIZE_def
            u8_at_def Let_def FAMILY_IPv4_def FAMILY_IPv6_def)
  qed
qed

theorem XorMappedAddress_decode_deobfuscates_witness:
  "factory_decode XorMappedAddress msg_data 24 8 =
     Inr (VAddress 1 0xb005 [0x2e, 0x13, 0x14, 0x62])"
proof -
  have "u8_at msg_data (24 + 1) = FAMILY_IPv4 \<and> (4 :: nat) = 4
        \<or> u8_at msg_data (24 + 1) = FAMILY_IPv6 \<and> (4 :: nat) = 16"
    by (simp add: msg_data_def u8_at_def FAMILY_IPv4_def)
  then have "factory_decode XorMappedAddress msg_data 24 8 =
     Inr (VAddress (u8_at msg_data (24 + 1))
            (u16_at msg_data (24 + 2) XOR (push_bit 8 (u8_at msg_data 4) OR u8_at msg_data 5))
            (map (\<lambda>i. msg_data ! (24 + 4 + i) XOR msg_data ! (4 + i)) [0..<4]))"
    by (rule XorMappedAddress_decode_deobfuscates [of XorMappedAddress msg_data 24 4 8, rotated 2])
       (simp_all add: msg_data_header)
  moreover have "[0..<4] = [0, 1, 2, 3 :: nat]"
    by (simp add: upt_rec)
  moreover have "u8_at msg_data (24 + 1) = 1" "u16_at msg_data (24 + 2) = 0x9117"
    "u8_at msg_data 4 = 0x21" "u8_at msg_data 5 = 0x12"
    "map (\<lambda>i. msg_data ! (24 + 4 + i) XOR msg_data ! (4 + i)) [0, 1, 2, 3]
       = [0x2e, 0x13, 0x14, 0x62]"
    by (simp_all add: msg_data_def u8_at_def u16_at_def)
  ultimately show ?thesis
    by simp
qed

text \<open>
  C3, as the claim states it: decoding consumes exactly the declared \<open>msg_length\<close>
  bytes of attributes or fails. It does not: \<open>overshoot_msg\<close> declares 4 bytes, its
  USERNAME attribute takes 8, and the message is decoded, the loop stopping at offset
  28 and not at \<open>20 + 4\<close>.
\<close>

theorem overshoot_counterexample:
  "StunMessage_decode module_registry overshoot_msg 0 =
     Inr \<lparr>msg_method = 1, msg_class = 0, msg_length = 4, magic_cookie = 0x2112A442,
          transaction_id =
            [0x7a, 0x2f, 0x2b, 0x50, 0x4c, 0x6a, 0x74, 0x57, 0x52, 0x61, 0x6c, 0x56],
          attributes =
            [\<lparr>attr_class = Username, attr_type = 0x0006, attr_length = 4,
               attr_value = VUnicode [97, 98, 99, 100]\<rparr>]\<rparr>
   \<and> decode_attributes_loop module_registry overshoot_msg 20 (20 + 4) =
     Inr ([\<lparr>attr_class = Username, attr_type = 0x0006, attr_length = 4,
             attr_value = VUnicode [97, 98, 99, 100]\<rparr>], 28)
   \<and> (28 :: nat) \<noteq> 20 + 4"
  by (simp add: overshoot_msg_decode overshoot_msg_attributes)

text \<open>
  C3, amended: when a message is decoded, the offset of the attribute loop has reached
  or passed the declared end \<open>offset + 20 + msg_length\<close> of the body. An attribute
  that extends past the declared end is accepted, not an error: when no attribute was
  decoded the declared length is 0, and otherwise the header of the last attribute
  starts before the declared end and lies in the buffer, and the loop stops at the
  offset that the round of this attribute computes, at or after the declared end.
\<close>

theorem decode_consumes_at_least:
  assumes "StunMessage_decode reg data offset = Inr m"
  shows "\<exists>final.
           decode_attributes_loop reg data (offset + 20) (offset + 20 + msg_length m)
             = Inr (attributes m, final)
           \<and> offset + 20 + msg_length m \<le> final
           \<and> (attributes m = [] \<longrightarrow> msg_length m = 0)
           \<and> (attributes m \<noteq> [] \<longrightarrow>
                (\<exists>start. offset + 20 \<le> start \<and> start < offset + 20 + msg_length m \<and>
                   start + 4 \<le> length data \<and>
                   decode_attribute reg data start = Inr (last (attributes m), final)))"
proof -
  from StunMessage_decode_InrD(2) [OF assms] obtain final where
    loop: "decode_attributes_loop reg data (offset + 20) (offset + 20 + msg_length m)
             = Inr (attributes m, final)"
    by blast
  note fin = decode_attributes_loop_final [OF loop]
  have empty: "attributes m = [] \<longrightarrow> msg_length m = 0"
    using fin by auto
  have last: "\<exists>start. offset + 20 \<le> start \<and> start < offset + 20 + msg_length m \<and>
                 start + 4 \<le> length data \<and>
                 decode_attribute reg data start = Inr (last (attributes m), final)"
    if "attributes m \<noteq> []"
  proof -
    from fin that obtain start where
      start: "offset + 20 \<le> start" "start < offset + 20 + msg_length m"
        "decode_attribute reg data start = Inr (last (attributes m), final)"
      by blast
    from decode_attribute_Inr(1) [OF start(3)] start show ?thesis
      by blast
  qed
  from loop fin empty last show ?thesis
    by blast
qed

theorem decode_consumes_at_least_witness:
  "\<exists>final. decode_attributes_loop module_registry overshoot_msg 20 24
              = Inr ([\<lparr>attr_class = Username, attr_type = 0x0006, attr_length = 4,
                      attr_value = VUnicode [97, 98, 99, 100]\<rparr>], final)
            \<and> 24 \<le> final"
  using decode_consumes_at_least [OF overshoot_msg_decode] by auto

text \<open>
  C4: the reason phrase of ERROR-CODE should be the \<open>len - 4\<close> bytes after the four
  bytes of the reserved field, the class and the number. \<open>ErrorCode.decode\<close> decodes
  the \<open>len\<close> bytes from the start of the value: for the 401 of \<open>error_msg\<close> the
  reason is the four bytes \<open>00 00 04 01\<close> followed by \<open>Unauthorized\<close>.
\<close>

theorem ErrorCode_reason_includes_prefix:
  "decode_attribute module_registry error_msg 20 =
     Inr (\<lparr>attr_class = ErrorCode, attr_type = ATTRIBUTE_ERROR_CODE, attr_length = 16,
            attr_value = VErrorCode 4 1
              ([0, 0, 4, 1] @ [85, 110, 97, 117, 116, 104, 111, 114, 105, 122, 101, 100])\<rparr>, 40)
   \<and> utf8_decode (take (16 - 4) (drop (24 + 4) error_msg)) =
       Inr [85, 110, 97, 117, 116, 104, 111, 114, 105, 122, 101, 100]"
  by (simp add: error_msg_first ATTRIBUTE_ERROR_CODE_def)
     (simp add: error_msg_def utf8_code_length_def utf8_char_def)



text \<open>
  C6: \<open>add_attribute_factory\<close> raises when the type code has a factory already, and
  otherwise returns the registry with the one new entry; so registering two factories
  for one type code, one after the other, raises at the second registration.
\<close>

theorem add_attribute_factory_once:
  "(reg t \<noteq> None \<longrightarrow> add_attribute_factory reg t fac = Inl AssertionError)
   \<and> (reg t = None \<longrightarrow> add_attribute_factory reg t fac = Inr (reg(t \<mapsto> fac)))
   \<and> register_all [(t, fac), (t, fac')] reg = Inl AssertionError"
  by (simp add: add_attribute_factory_def)

theorem add_attribute_factory_once_witness:
  "add_attribute_factory module_registry 0x0020 XorPeerAddress = Inl AssertionError
   \<and> add_attribute_factory Map.empty 0x0020 XorMappedAddress
       = Inr [0x0020 \<mapsto> XorMappedAddress]
   \<and> register_all [(0x0020, XorMappedAddress), (0x0020, XorPeerAddress)] Map.empty
       = Inl AssertionError"
proof -
  have bound: "module_registry 0x0020 \<noteq> None"
    by (simp add: module_registry_cases)
  have fresh: "(Map.empty :: registry) 0x0020 = None"
    by simp
  have "add_attribute_factory module_registry 0x0020 XorPeerAddress = Inl AssertionError"
    using add_attribute_factory_once [of module_registry "0x0020" XorPeerAddress XorPeerAddress]
      bound by blast
  moreover have "add_attribute_factory Map.empty 0x0020 XorMappedAddress
       = Inr [0x0020 \<mapsto> XorMappedAddress]"
    and "register_all [(0x0020, XorMappedAddress), (0x0020, XorPeerAddress)] Map.empty
       = Inl AssertionError"
    using add_attribute_factory_once [of Map.empty "0x0020" XorMappedAddress XorPeerAddress]
      fresh by blast+
  ultimately show ?thesis
    by blast
qed

text \<open>
  C7: decoding the buffer of the worked example gives the method Binding, the class
  Success Response, the length 88, the magic cookie \<open>0x2112A442\<close> and the transaction
  id \<open>7a2f2b504c6a745752616c56\<close>; the six attributes are listed with them.
\<close>

theorem worked_example_decode:
  "StunMessage_decode module_registry msg_data 0 =
     Inr \<lparr>msg_method = METHOD_BINDING, msg_class = CLASS_RESPONSE_SUCCESS, msg_length = 88,
          magic_cookie = MAGIC_COOKIE,
          transaction_id =
            [0x7a, 0x2f, 0x2b, 0x50, 0x4c, 0x6a, 0x74, 0x57, 0x52, 0x61, 0x6c, 0x56],
          attributes =
            [\<lparr>attr_class = XorMappedAddress, attr_type = 0x0020, attr_length = 8,
               attr_value = VAddress 1 0xb005 [0x2e, 0x13, 0x14, 0x62]\<rparr>,
             \<lparr>attr_class = MappedAddress, attr_type = 0x0001, attr_length = 8,
               attr_value = VAddress 1 0xb005 [0x2e, 0x13, 0x14, 0x62]\<rparr>,
             \<lparr>attr_class = ResponseOrigin, attr_type = 0x802b, attr_length = 8,
               attr_value = VAddress 1 0x0d96 [0x0a, 0xf0, 0xd7, 0xb4]\<rparr>,
             \<lparr>attr_class = OtherAddress, attr_type = 0x802c, attr_length = 8,
               attr_value = VAddress 1 0x0d97 [0x0a, 0xf0, 0xd7, 0xb4]\<rparr>,
             \<lparr>attr_class = Software, attr_type = 0x8022, attr_length = 26,
               attr_value = VUnicode [67, 105, 116, 114, 105, 120, 45, 49, 46, 56, 46, 55, 46,
                                      48, 32, 39, 66, 108, 97, 99, 107, 32, 68, 111, 119, 39]\<rparr>,
             \<lparr>attr_class = Fingerprint, attr_type = 0x8028, attr_length = 4,
               attr_value = VBuffer [0xae, 0xa9, 0x05, 0x59]\<rparr>]\<rparr>"
  by (simp add: msg_data_decode METHOD_BINDING_def CLASS_RESPONSE_SUCCESS_def MAGIC_COOKIE_def)

text \<open>
  C8: decoding at an offset should read the header at that offset, and so give the
  message that the bytes from the offset on give at offset 0. The header is read at
  offset 0 whatever the offset is: in \<open>stream_data\<close>, which holds \<open>second_msg\<close> at
  offset 20, decoding at offset 20 gives the header of the first message and no
  attribute.
\<close>

theorem decode_at_offset_reads_first_header:
  "drop 20 stream_data = second_msg
   \<and> StunMessage_decode module_registry stream_data 20 =
     Inr \<lparr>msg_method = 1, msg_class = CLASS_REQUEST, msg_length = 0,
          magic_cookie = 0x2112A442,
          transaction_id =
            [0x7a, 0x2f, 0x2b, 0x50, 0x4c, 0x6a, 0x74, 0x57, 0x52, 0x61, 0x6c, 0x56],
          attributes = []\<rparr>
   \<and> StunMessage_decode module_registry second_msg 0 =
     Inr \<lparr>msg_method = 1, msg_class = CLASS_RESPONSE_SUCCESS, msg_length = 12,
          magic_cookie = 0x2112A442,
          transaction_id =
            [0x11, 0x22, 0x33, 0x44, 0x55, 0x66, 0x77, 0x88, 0x99, 0xaa, 0xbb, 0xcc],
          attributes =
            [\<lparr>attr_class = MappedAddress, attr_type = 0x0001, attr_length = 8,
               attr_value = VAddress 1 0x1234 [0xc0, 0x00, 0x02, 0x01]\<rparr>]\<rparr>"
  by (simp add: stream_data_decode second_msg_decode CLASS_REQUEST_def
        CLASS_RESPONSE_SUCCESS_def)
     (simp add: stream_data_def)

text \<open>
  C9, as the claim states it: an address attribute whose family is neither 1 nor 2
  makes decoding fail. It does not for MAPPED-ADDRESS: \<open>family3_msg\<close> is decoded,
  with the family 3 in the value.
\<close>

theorem family3_counterexample:
  "u8_at family3_msg 25 = 3
   \<and> StunMessage_decode module_registry family3_msg 0 =
     Inr \<lparr>msg_method = 1, msg_class = 0x10, msg_length = 12, magic_cookie = 0x2112A442,
          transaction_id =
            [0x7a, 0x2f, 0x2b, 0x50, 0x4c, 0x6a, 0x74, 0x57, 0x52, 0x61, 0x6c, 0x56],
          attributes =
            [\<lparr>attr_class = MappedAddress, attr_type = 0x0001, attr_length = 8,
               attr_value = VAddress 3 0x1234 [0xc0, 0x00, 0x02, 0x01]\<rparr>]\<rparr>"
  by (simp add: family3_msg_decode) (simp add: family3_msg_def u8_at_def)

text \<open>
  C9, amended: the classes with the layout of MAPPED-ADDRESS (MAPPED-ADDRESS,
  ALTERNATE-SERVER, RESPONSE-ORIGIN, OTHER-ADDRESS) do not validate the family: with
  the four bytes of the value header in the buffer and a declared length of at least
  4, the value is decoded whatever the family byte is, and it is the family as read,
  the port and the address bytes.
\<close>

theorem address_family_unchecked:
  assumes "fac \<in> {MappedAddress, AlternateServer, ResponseOrigin, OtherAddress}"
    and "offset + 4 \<le> length data"
    and "4 \<le> len"
  shows "factory_decode fac data offset len =
     Inr (VAddress (u8_at data (offset + 1)) (u16_at data (offset + 2))
            (take (len - 4) (drop (offset + 4) data)))"
proof -
  have "factory_decode fac = MappedAddress_decode"
    using assms(1) by auto
  moreover have "nat (int len - 4) = len - 4" "int len - 4 \<noteq> - 1" "\<not> int len - 4 < 0"
    using assms(3) by auto
  ultimately show ?thesis
    using assms(2)
    by (simp add: MappedAddress_decode_def unpack_from_def buffer_def VALUE_HEADER_SIZE_def)
qed

theorem address_family_unchecked_witness:
  "factory_decode MappedAddress family3_msg 24 8 =
     Inr (VAddress 3 0x1234 [0xc0, 0x00, 0x02, 0x01])"
proof -
  have "length family3_msg = 32" "u8_at family3_msg (24 + 1) = 3"
    "u16_at family3_msg (24 + 2) = 0x1234"
    "take (8 - 4) (drop (24 + 4) family3_msg) = [0xc0, 0x00, 0x02, 0x01]"
    by (simp_all add: family3_msg_def u8_at_def u16_at_def)
  then show ?thesis
    using address_family_unchecked
            [where fac = MappedAddress and data = family3_msg and offset = 24 and len = 8]
    by simp
qed

text \<open>
  C10: for a message that \<open>decode\<close> returns, \<open>__len__\<close> is 20 plus the \<open>msg_length\<close>
  field, which is the 16-bit length field of the header that \<open>decode\<close> unpacked (the
  big-endian bytes 2 and 3 of the buffer), whatever the attributes consumed and
  whatever the size of the buffer.
\<close>

theorem StunMessage_len_declared:
  assumes "StunMessage_decode reg data offset = Inr m"
  shows "StunMessage_len m = 20 + msg_length m \<and> msg_length m = u16_at data 2"
  using StunMessage_decode_InrD(1) [OF assms]
  by (simp add: StunMessage_len_def HEADER_SIZE_msg_def)

theorem StunMessage_len_declared_witness:
  "StunMessage_len
     \<lparr>msg_method = 1, msg_class = 0, msg_length = 4, magic_cookie = 0x2112A442,
      transaction_id =
        [0x7a, 0x2f, 0x2b, 0x50, 0x4c, 0x6a, 0x74, 0x57, 0x52, 0x61, 0x6c, 0x56],
      attributes =
        [\<lparr>attr_class = Username, attr_type = 0x0006, attr_length = 4,
           attr_value = VUnicode [97, 98, 99, 100]\<rparr>]\<rparr> = 24
   \<and> u16_at overshoot_msg 2 = 4 \<and> length overshoot_msg = 28"
  using StunMessage_len_declared [OF overshoot_msg_decode]
  by (simp add: overshoot_msg_header)

end
